theory Spec2Isabelle
  imports Complex_Main "HOL-Library.Sublist"
begin

section \<open>CryptoCompare news tool: \<open>skills/cryptocompare/fetch_news.py\<close>\<close>

text \<open>
  The tool's only method, \<open>CryptoCompareFetchNews._arun\<close>, resolves the agent context,
  asks the rate limiter, reads the clock, calls the remote \<open>fetch_news\<close>, and maps the
  provider's JSON to \<open>NewsArticle\<close> records; one \<open>try ... except Exception\<close> encloses
  all of it. The model follows the method line by line. What the method calls but does
  not define (the base tool's \<open>context_from_config\<close> and \<open>check_rate_limit\<close>, the api
  module's \<open>fetch_news\<close>, the clock, and the parts of Python and pydantic that depend on
  the library version) is collected in the record \<open>env\<close> and stays a parameter of
  every definition.
\<close>

subsection \<open>Python values and exceptions\<close>

text \<open>
  A decoded JSON value, as \<open>response.json()\<close> yields it. A dict is an association
  list in insertion order, its keys distinct; a float is written as the rational number
  it denotes.
\<close>

datatype json =
    JNull
  | JBool bool
  | JInt int
  | JFloat rat
  | JStr string
  | JList "json list"
  | JObj "(string \<times> json) list"

text \<open>
  A raised exception, with \<open>str(e)\<close> as its argument. The first four are classes that
  derive from \<open>Exception\<close>; \<open>OtherException\<close> is any further such class (for example
  a connection error or a timeout of the HTTP client), with its class name.
  \<open>NonException\<close> is a class that derives from \<open>BaseException\<close> only
  (\<open>asyncio.CancelledError\<close>, \<open>KeyboardInterrupt\<close>, \<open>SystemExit\<close>).
\<close>

datatype exception =
    KeyError string
  | TypeError string
  | AttributeError string
  | ValidationError string
  | OtherException string string
  | NonException string string

fun isinstance_Exception :: "exception \<Rightarrow> bool" where
  "isinstance_Exception (NonException cls txt) = False"
| "isinstance_Exception e = True"

fun str_exception :: "exception \<Rightarrow> string" where
  "str_exception (KeyError txt) = txt"
| "str_exception (TypeError txt) = txt"
| "str_exception (AttributeError txt) = txt"
| "str_exception (ValidationError txt) = txt"
| "str_exception (OtherException cls txt) = txt"
| "str_exception (NonException cls txt) = txt"

definition and_then :: "exception + 'a \<Rightarrow> ('a \<Rightarrow> exception + 'b) \<Rightarrow> exception + 'b" where
  "and_then m f = (case m of Inl e \<Rightarrow> Inl e | Inr x \<Rightarrow> f x)"

fun type_name :: "json \<Rightarrow> string" where
  "type_name JNull = ''NoneType''"
| "type_name (JBool b) = ''bool''"
| "type_name (JInt i) = ''int''"
| "type_name (JFloat q) = ''float''"
| "type_name (JStr s) = ''str''"
| "type_name (JList xs) = ''list''"
| "type_name (JObj kvs) = ''dict''"

text \<open>\<open>key in v\<close> for a string \<open>key\<close>. Message texts are CPython 3.12's.\<close>

fun py_contains :: "string \<Rightarrow> json \<Rightarrow> exception + bool" where
  "py_contains k (JObj kvs) = Inr (k \<in> set (map fst kvs))"
| "py_contains k (JList xs) = Inr (JStr k \<in> set xs)"
| "py_contains k (JStr s) = Inr (sublist k s)"
| "py_contains k v =
     Inl (TypeError (''argument of type '' @ [CHR 0x27] @ type_name v @ [CHR 0x27] @ '' is not iterable''))"

text \<open>
  \<open>v[key]\<close> for a string \<open>key\<close>. \<open>str(KeyError(key))\<close> is \<open>repr(key)\<close>, which for
  the keys of this file (letters and an underscore) is the key in single quotes.
\<close>

fun py_getitem :: "json \<Rightarrow> string \<Rightarrow> exception + json" where
  "py_getitem (JObj kvs) k =
     (case map_of kvs k of
        None \<Rightarrow> Inl (KeyError ([CHR 0x27] @ k @ [CHR 0x27]))
      | Some v \<Rightarrow> Inr v)"
| "py_getitem (JList xs) k = Inl (TypeError ''list indices must be integers or slices, not str'')"
| "py_getitem (JStr s) k =
     Inl (TypeError (''string indices must be integers, not '' @ [CHR 0x27] @ ''str'' @ [CHR 0x27]))"
| "py_getitem v k =
     Inl (TypeError ([CHR 0x27] @ type_name v @ [CHR 0x27] @ '' object is not subscriptable''))"

text \<open>\<open>for x in v\<close>: a list yields its elements, a dict its keys, a string its characters.\<close>

fun py_iter :: "json \<Rightarrow> exception + json list" where
  "py_iter (JList xs) = Inr xs"
| "py_iter (JObj kvs) = Inr (map (\<lambda>kv. JStr (fst kv)) kvs)"
| "py_iter (JStr s) = Inr (map (\<lambda>c. JStr [c]) s)"
| "py_iter v =
     Inl (TypeError ([CHR 0x27] @ type_name v @ [CHR 0x27] @ '' object is not iterable''))"

text \<open>\<open>s.split(sep)\<close> for a one-character separator: every occurrence splits.\<close>

fun split_on :: "char \<Rightarrow> string \<Rightarrow> string list" where
  "split_on sep [] = [[]]"
| "split_on sep (c # cs) =
     (if c = sep then [] # split_on sep cs
      else (case split_on sep cs of [] \<Rightarrow> [[c]] | w # ws \<Rightarrow> (c # w) # ws))"

text \<open>\<open>sep.join(ws)\<close>, the inverse the split is measured against.\<close>

fun join_with :: "char \<Rightarrow> string list \<Rightarrow> string" where
  "join_with sep [] = []"
| "join_with sep [w] = w"
| "join_with sep (w # ws) = w @ sep # join_with sep ws"

text \<open>\<open>v.split("|")\<close>: only a string has the method.\<close>

fun py_split_bar :: "json \<Rightarrow> exception + string list" where
  "py_split_bar (JStr s) = Inr (split_on (CHR ''|'') s)"
| "py_split_bar v =
     Inl (AttributeError ([CHR 0x27] @ type_name v @ [CHR 0x27] @ '' object has no attribute ''
            @ [CHR 0x27] @ ''split'' @ [CHR 0x27]))"

fun nat_digits :: "nat \<Rightarrow> string" where
  "nat_digits n =
     (if n < 10 then [''0123456789'' ! n]
      else nat_digits (n div 10) @ [''0123456789'' ! (n mod 10)])"

declare nat_digits.simps [simp del]

definition str_int :: "int \<Rightarrow> string" where
  "str_int i = (if i < 0 then CHR ''-'' # nat_digits (nat (- i)) else nat_digits (nat i))"

text \<open>\<open>int(x)\<close> of a float truncates towards zero.\<close>

definition int_of_float :: "rat \<Rightarrow> int" where
  "int_of_float x = (if 0 \<le> x then \<lfloor>x\<rfloor> else \<lceil>x\<rceil>)"

subsection \<open>The data model\<close>

record NewsArticle =
  id' :: string
  title :: string
  body :: string
  published_at :: int
  url :: string
  source :: string
  categories :: "string list"

text \<open>\<open>CryptoCompareFetchNewsOutput\<close>: \<open>articles\<close> defaults to the empty list, \<open>error\<close> to \<open>None\<close>.\<close>

record CryptoCompareFetchNewsOutput =
  articles :: "NewsArticle list"
  error :: "string option"

text \<open>
  The agent context as \<open>_arun\<close> reads it: \<open>context.agent.id\<close> (what the limiter receives,
  a string or \<open>None\<close>) and \<open>context.config\<close>, read through \<open>.get("api_key")\<close>.
  A context that exists has both. \<open>context_from_config\<close> may also return no context
  at all, the case line 74 tests for.
\<close>

record agent_context =
  agent_id :: "string option"
  config :: "string \<rightharpoonup> string"

text \<open>Line 74: \<open>context.agent.id if context else None\<close>.\<close>

definition agent_id_of :: "agent_context option \<Rightarrow> string option" where
  "agent_id_of context = (case context of None \<Rightarrow> None | Some c \<Rightarrow> agent_id c)"

text \<open>The calls \<open>_arun\<close> makes outside itself, with their arguments, in order.\<close>

datatype call =
    ContextFromConfig
  | CheckRateLimit "string option"
  | TimeTime
  | FetchNews "string option" string int

fun is_FetchNews :: "call \<Rightarrow> bool" where
  "is_FetchNews (FetchNews k t ts) = True"
| "is_FetchNews c = False"

text \<open>
  What \<open>_arun\<close> depends on and \<open>fetch_news.py\<close> does not define.
  \<^item> \<open>context_from_config\<close>, \<open>check_rate_limit\<close> (base tool) and \<open>fetch_news\<close> (api module):
    each returns or raises. The limiter returns \<open>(is_rate_limited, error_msg)\<close>.
  \<^item> \<open>time_time\<close>: the value \<open>time.time()\<close> returns when \<open>_arun\<close> reads it.
  \<^item> \<open>py_repr\<close>: \<open>repr\<close> of a float, list or dict, which \<open>str\<close> returns for them.
  \<^item> \<open>lax_str\<close>, \<open>lax_int\<close>: what pydantic makes of an input that is not already of the
    field's declared type (a coerced value, or \<open>None\<close> when it rejects the input);
    \<open>validation_text\<close>: \<open>str\<close> of the \<open>ValidationError\<close> for the rejected fields.
\<close>

record 'cfg env =
  context_from_config :: "'cfg \<Rightarrow> exception + agent_context option"
  check_rate_limit :: "string option \<Rightarrow> exception + bool \<times> string option"
  time_time :: rat
  fetch_news :: "string option \<Rightarrow> string \<Rightarrow> int \<Rightarrow> exception + json"
  py_repr :: "json \<Rightarrow> string"
  lax_str :: "json \<Rightarrow> string option"
  lax_int :: "json \<Rightarrow> int option"
  validation_text :: "(string \<times> json) list \<Rightarrow> string"

subsection \<open>Building one article\<close>

text \<open>The builtin \<open>str(v)\<close>.\<close>

fun py_str :: "'cfg env \<Rightarrow> json \<Rightarrow> string" where
  "py_str E (JStr s) = s"
| "py_str E (JInt i) = str_int i"
| "py_str E (JBool b) = (if b then ''True'' else ''False'')"
| "py_str E JNull = ''None''"
| "py_str E v = py_repr E v"

fun validate_str :: "'cfg env \<Rightarrow> json \<Rightarrow> string option" where
  "validate_str E (JStr s) = Some s"
| "validate_str E v = lax_str E v"

fun validate_int :: "'cfg env \<Rightarrow> json \<Rightarrow> int option" where
  "validate_int E (JInt i) = Some i"
| "validate_int E v = lax_int E v"

definition rejected :: "string \<Rightarrow> json \<Rightarrow> 'a option \<Rightarrow> (string \<times> json) list" where
  "rejected field v r = (case r of None \<Rightarrow> [(field, v)] | Some x \<Rightarrow> [])"

text \<open>
  The constructor \<open>NewsArticle(id=..., title=..., ...)\<close>. \<open>id\<close> and \<open>categories\<close> arrive
  as a \<open>str\<close> and a list of \<open>str\<close> and are kept; the other five fields are validated, and
  one \<open>ValidationError\<close> reports every rejected field.
\<close>

definition NewsArticle_init ::
  "'cfg env \<Rightarrow> string \<Rightarrow> json \<Rightarrow> json \<Rightarrow> json \<Rightarrow> json \<Rightarrow> json \<Rightarrow> string list
     \<Rightarrow> exception + NewsArticle" where
  "NewsArticle_init E i t b p u s cs =
     (case (validate_str E t, validate_str E b, validate_int E p, validate_str E u, validate_str E s) of
        (Some t', Some b', Some p', Some u', Some s') \<Rightarrow>
          Inr \<lparr>id' = i, title = t', body = b', published_at = p', url = u', source = s',
               categories = cs\<rparr>
      | _ \<Rightarrow>
          Inl (ValidationError (validation_text E
            (rejected ''title'' t (validate_str E t) @ rejected ''body'' b (validate_str E b)
             @ rejected ''published_at'' p (validate_int E p) @ rejected ''url'' u (validate_str E u)
             @ rejected ''source'' s (validate_str E s)))))"

text \<open>
  The element expression of the comprehension (lines 92 to 100): the keyword arguments
  are evaluated top to bottom, then the constructor runs.
\<close>

definition article_of :: "'cfg env \<Rightarrow> json \<Rightarrow> exception + NewsArticle" where
  "article_of E article =
     and_then (py_getitem article ''id'') (\<lambda>v_id.
     and_then (py_getitem article ''title'') (\<lambda>v_title.
     and_then (py_getitem article ''body'') (\<lambda>v_body.
     and_then (py_getitem article ''published_on'') (\<lambda>v_published.
     and_then (py_getitem article ''url'') (\<lambda>v_url.
     and_then (py_getitem article ''source'') (\<lambda>v_source.
     and_then (py_getitem article ''categories'') (\<lambda>v_categories.
     and_then (py_split_bar v_categories) (\<lambda>cats.
       NewsArticle_init E (py_str E v_id) v_title v_body v_published v_url v_source cats))))))))"

text \<open>A list comprehension: the first element that raises ends it, and no list is built.\<close>

fun comprehension :: "('a \<Rightarrow> exception + 'b) \<Rightarrow> 'a list \<Rightarrow> exception + 'b list" where
  "comprehension f [] = Inr []"
| "comprehension f (x # xs) =
     (case f x of
        Inl e \<Rightarrow> Inl e
      | Inr y \<Rightarrow> (case comprehension f xs of Inl e \<Rightarrow> Inl e | Inr ys \<Rightarrow> Inr (y # ys)))"

subsection \<open>\<open>_arun\<close>\<close>

text \<open>Lines 85 to 104: from the fetched \<open>result\<close> to the returned output.\<close>

definition output_of_result :: "'cfg env \<Rightarrow> json \<Rightarrow> exception + CryptoCompareFetchNewsOutput" where
  "output_of_result E result =
     and_then (py_contains ''Data'' result) (\<lambda>present.
       if \<not> present
       then Inr \<lparr>articles = [], error = Some ''Invalid response format from CryptoCompare API''\<rparr>
       else
         and_then (py_getitem result ''Data'') (\<lambda>data.
         and_then (py_iter data) (\<lambda>items.
         and_then (comprehension (article_of E) items) (\<lambda>arts.
           Inr \<lparr>articles = arts, error = None\<rparr>))))"

text \<open>
  The body of the \<open>try\<close> (lines 73 to 104): the calls made, and the value returned
  (\<open>Inr\<close>) or the exception raised (\<open>Inl\<close>). \<open>kwargs\<close> is accepted and never read.
  With \<open>context\<close> being \<open>None\<close>, line 83 raises on \<open>context.config\<close> while it evaluates
  the arguments of \<open>fetch_news\<close>, before the call.
\<close>

definition arun_try ::
  "'cfg env \<Rightarrow> string \<Rightarrow> 'cfg \<Rightarrow> (string \<times> json) list \<Rightarrow> call list \<times> (exception + CryptoCompareFetchNewsOutput)" where
  "arun_try E token runnable_config kwargs =
     (case context_from_config E runnable_config of
        Inl e \<Rightarrow> ([ContextFromConfig], Inl e)
      | Inr context \<Rightarrow>
          let aid = agent_id_of context in
          (case check_rate_limit E aid of
             Inl e \<Rightarrow> ([ContextFromConfig, CheckRateLimit aid], Inl e)
           | Inr (is_rate_limited, error_msg) \<Rightarrow>
               if is_rate_limited
               then ([ContextFromConfig, CheckRateLimit aid],
                     Inr \<lparr>articles = [], error = error_msg\<rparr>)
               else
                 let timestamp = int_of_float (time_time E) in
                 (case context of
                    None \<Rightarrow>
                      ([ContextFromConfig, CheckRateLimit aid, TimeTime],
                       Inl (AttributeError (
                         [CHR 0x27] @ ''NoneType'' @ [CHR 0x27] @ '' object has no attribute ''
                         @ [CHR 0x27] @ ''config'' @ [CHR 0x27])))
                  | Some c \<Rightarrow>
                      let api_key = config c ''api_key'' in
                      ([ContextFromConfig, CheckRateLimit aid, TimeTime,
                        FetchNews api_key token timestamp],
                       and_then (fetch_news E api_key token timestamp) (output_of_result E)))))"

text \<open>
  \<open>_arun\<close>: the \<open>try\<close> with its handler \<open>except Exception as e\<close> (lines 106 and 107).
  An exception that is not an instance of \<open>Exception\<close> passes the handler.
\<close>

definition arun ::
  "'cfg env \<Rightarrow> string \<Rightarrow> 'cfg \<Rightarrow> (string \<times> json) list \<Rightarrow> call list \<times> (exception + CryptoCompareFetchNewsOutput)" where
  "arun E token runnable_config kwargs =
     (case arun_try E token runnable_config kwargs of
        (calls, Inl e) \<Rightarrow>
          if isinstance_Exception e
          then (calls, Inr \<lparr>articles = [], error = Some (str_exception e)\<rparr>)
          else (calls, Inl e)
      | (calls, Inr out) \<Rightarrow> (calls, Inr out))"

subsection \<open>The expected shape of a response\<close>

text \<open>
  The provider's documented shape: an object whose \<open>Data\<close> is a list of objects, each
  with the seven keys the comprehension reads, \<open>published_on\<close> an integer and the
  other validated fields and \<open>categories\<close> strings. \<open>id\<close> may be any value.
\<close>

definition has_key :: "json \<Rightarrow> string \<Rightarrow> bool" where
  "has_key a k = (case py_getitem a k of Inr v \<Rightarrow> True | Inl e \<Rightarrow> False)"

definition has_str :: "json \<Rightarrow> string \<Rightarrow> bool" where
  "has_str a k = (case py_getitem a k of Inr (JStr s) \<Rightarrow> True | _ \<Rightarrow> False)"

definition has_int :: "json \<Rightarrow> string \<Rightarrow> bool" where
  "has_int a k = (case py_getitem a k of Inr (JInt i) \<Rightarrow> True | _ \<Rightarrow> False)"

definition well_formed_entry :: "json \<Rightarrow> bool" where
  "well_formed_entry a =
     (has_key a ''id'' \<and> has_str a ''title'' \<and> has_str a ''body'' \<and> has_int a ''published_on''
      \<and> has_str a ''url'' \<and> has_str a ''source'' \<and> has_str a ''categories'')"

definition well_formed_response :: "json \<Rightarrow> json list \<Rightarrow> bool" where
  "well_formed_response result entries =
     (py_getitem result ''Data'' = Inr (JList entries) \<and> list_all well_formed_entry entries)"

subsection \<open>Sample inputs\<close>

definition sample_entry :: "string \<Rightarrow> string \<Rightarrow> string \<Rightarrow> json" where
  "sample_entry i t cats =
     JObj [(''id'', JStr i), (''title'', JStr t), (''body'', JStr ''text''),
           (''published_on'', JInt 1700000000), (''url'', JStr ''https://example.org/a''),
           (''source'', JStr ''wire''), (''categories'', JStr cats)]"

definition sample_entries :: "json list" where
  "sample_entries =
     [sample_entry ''101'' ''one'' ''Blockchain|Mining|Trading'',
      sample_entry ''102'' ''two'' [],
      sample_entry ''103'' ''three'' ''BTC'']"

definition sample_response :: json where
  "sample_response = JObj [(''Type'', JInt 100), (''Data'', JList sample_entries)]"

definition sample_context :: agent_context where
  "sample_context = \<lparr>agent_id = Some ''agent-1'', config = [''api_key'' \<mapsto> ''secret'']\<rparr>"

text \<open>An agent present and not limited; the provider answers with the sample response.\<close>

definition sample_env :: "unit env" where
  "sample_env =
     \<lparr>context_from_config = (\<lambda>c. Inr (Some sample_context)),
      check_rate_limit = (\<lambda>a. Inr (False, None)),
      time_time = 6800000495 / 4,
      fetch_news = (\<lambda>k t ts. Inr sample_response),
      py_repr = (\<lambda>v. ''?''),
      lax_str = (\<lambda>v. None),
      lax_int = (\<lambda>v. None),
      validation_text = (\<lambda>fs. ''validation error for NewsArticle'')\<rparr>"

text \<open>The same response on another day, for another agent with another key.\<close>

definition other_context :: agent_context where
  "other_context = \<lparr>agent_id = Some ''agent-2'', config = [''api_key'' \<mapsto> ''other'']\<rparr>"

definition other_env :: "unit env" where
  "other_env =
     sample_env\<lparr>context_from_config := (\<lambda>c. Inr (Some other_context)),
                time_time := 1800000000\<rparr>"

definition limited_env :: "unit env" where
  "limited_env = sample_env\<lparr>check_rate_limit := (\<lambda>a. Inr (True, Some ''Rate limit exceeded''))\<rparr>"


definition error_response :: json where
  "error_response = JObj [(''Response'', JStr ''Error''), (''Message'', JStr ''bad key'')]"

definition error_response_env :: "unit env" where
  "error_response_env = sample_env\<lparr>fetch_news := (\<lambda>k t ts. Inr error_response)\<rparr>"



text \<open>A response whose second entry lacks every key but \<open>id\<close>.\<close>

definition broken_entries :: "json list" where
  "broken_entries = [sample_entry ''101'' ''one'' ''BTC'', JObj [(''id'', JInt 5)]]"

definition broken_response :: json where
  "broken_response = JObj [(''Data'', JList broken_entries)]"

definition broken_env :: "unit env" where
  "broken_env = sample_env\<lparr>fetch_news := (\<lambda>k t ts. Inr broken_response)\<rparr>"

text \<open>The three articles of the sample response.\<close>

definition sample_articles :: "NewsArticle list" where
  "sample_articles =
     [\<lparr>id' = ''101'', title = ''one'', body = ''text'', published_at = 1700000000,
       url = ''https://example.org/a'', source = ''wire'',
       categories = [''Blockchain'', ''Mining'', ''Trading'']\<rparr>,
      \<lparr>id' = ''102'', title = ''two'', body = ''text'', published_at = 1700000000,
       url = ''https://example.org/a'', source = ''wire'', categories = [[]]\<rparr>,
      \<lparr>id' = ''103'', title = ''three'', body = ''text'', published_at = 1700000000,
       url = ''https://example.org/a'', source = ''wire'', categories = [''BTC'']\<rparr>]"

section \<open>Properties of the model\<close>

subsection \<open>Splitting and joining\<close>

text \<open>
  \<open>split_on\<close> is the inverse of \<open>join_with\<close>, no piece holds the separator, and there
  is one piece more than there are separators: this fixes the result of the split.
\<close>

lemma split_on_not_Nil: "split_on sep s \<noteq> []"
  by (induction s) (auto split: list.splits)

lemma join_with_Cons: "ws \<noteq> [] \<Longrightarrow> join_with sep (w # ws) = w @ sep # join_with sep ws"
  by (cases ws) auto

lemma join_with_split_on: "join_with sep (split_on sep s) = s"
proof (induction s)
  case Nil
  show ?case by simp
next
  case (Cons c cs)
  obtain w ws where ws: "split_on sep cs = w # ws"
    using split_on_not_Nil [of sep cs] by (cases "split_on sep cs") auto
  show ?case
  proof (cases "c = sep")
    case True
    then show ?thesis using Cons ws by (simp add: join_with_Cons)
  next
    case False
    then show ?thesis using Cons ws by (cases ws) auto
  qed
qed

lemma split_on_no_sep: "w \<in> set (split_on sep s) \<Longrightarrow> sep \<notin> set w"
proof (induction s arbitrary: w)
  case Nil
  then show ?case by simp
next
  case (Cons c cs)
  then show ?case by (auto split: if_splits list.splits)
qed

lemma length_split_on: "length (split_on sep s) = Suc (count_list s sep)"
  by (induction s) (auto split: list.splits simp: split_on_not_Nil)

subsection \<open>The comprehension\<close>

lemma comprehension_Inr_iff: "comprehension f xs = Inr ys \<longleftrightarrow> map f xs = map Inr ys"
proof (induction xs arbitrary: ys)
  case Nil
  show ?case by auto
next
  case (Cons x xs)
  show ?case
  proof (cases "f x")
    case (Inl e)
    then show ?thesis by (cases ys) auto
  next
    case (Inr y)
    show ?thesis
    proof (cases "comprehension f xs")
      case (Inl e)
      have "map f xs \<noteq> map Inr zs" for zs
        using Cons [of zs] Inl by simp
      then show ?thesis using Inl Inr by (cases ys) auto
    next
      case r: (Inr zs)
      then have "map f xs = map Inr zs" using Cons [of zs] by simp
      then show ?thesis using r Inr by (cases ys) auto
    qed
  qed
qed

lemma comprehension_all_ok:
  "(\<And>x. x \<in> set xs \<Longrightarrow> \<exists>y. f x = Inr y) \<Longrightarrow> \<exists>ys. comprehension f xs = Inr ys"
proof (induction xs)
  case Nil
  show ?case by simp
next
  case (Cons x xs)
  then obtain y ys where "f x = Inr y" "comprehension f xs = Inr ys" by fastforce
  then show ?case by simp
qed

lemma comprehension_Inl_first:
  "comprehension f xs = Inl e \<Longrightarrow>
     \<exists>ys x zs. xs = ys @ x # zs \<and> (\<forall>y\<in>set ys. \<exists>b. f y = Inr b) \<and> f x = Inl e"
proof (induction xs)
  case Nil
  then show ?case by simp
next
  case (Cons a xs)
  show ?case
  proof (cases "f a")
    case (Inl e')
    with Cons.prems have "e' = e" by simp
    with Inl have "a # xs = [] @ a # xs \<and> (\<forall>y\<in>set []. \<exists>b. f y = Inr b) \<and> f a = Inl e" by simp
    then show ?thesis by blast
  next
    case (Inr b)
    with Cons.prems have "comprehension f xs = Inl e" by (simp split: sum.splits)
    from Cons.IH [OF this] obtain ys x zs where
      h: "xs = ys @ x # zs" "\<forall>y\<in>set ys. \<exists>b. f y = Inr b" "f x = Inl e" by blast
    with Inr have "a # xs = (a # ys) @ x # zs \<and> (\<forall>y\<in>set (a # ys). \<exists>b. f y = Inr b) \<and> f x = Inl e"
      by simp
    then show ?thesis by blast
  qed
qed

lemma comprehension_some_fails:
  "x \<in> set xs \<Longrightarrow> f x = Inl e0 \<Longrightarrow> \<exists>e. comprehension f xs = Inl e"
proof (induction xs)
  case Nil
  then show ?case by simp
next
  case (Cons a xs)
  then show ?case by (cases "f a"; cases "comprehension f xs") auto
qed

lemma comprehension_cong:
  "(\<And>x. x \<in> set xs \<Longrightarrow> f x = g x) \<Longrightarrow> comprehension f xs = comprehension g xs"
proof (induction xs)
  case Nil
  show ?case by simp
next
  case (Cons a xs)
  have head: "f a = g a" using Cons.prems by simp
  have rest: "comprehension f xs = comprehension g xs"
    using Cons.IH Cons.prems by simp
  show ?case by (simp only: comprehension.simps head rest)
qed

subsection \<open>The steps of the mapping\<close>

text \<open>Item access, iteration, the split and the constructor raise instances of \<open>Exception\<close> only.\<close>

lemma and_then_Inl: "and_then (Inl e) f = Inl e"
  by (simp add: and_then_def)

lemma and_then_Inr: "and_then (Inr x) f = f x"
  by (simp add: and_then_def)

lemma and_then_eq_Inr:
  "and_then m f = Inr y \<longleftrightarrow> (\<exists>x. m = Inr x \<and> f x = Inr y)"
  by (cases m) (simp_all add: and_then_def)

lemma and_then_eq_Inl:
  "and_then m f = Inl e \<longleftrightarrow> m = Inl e \<or> (\<exists>x. m = Inr x \<and> f x = Inl e)"
  by (cases m) (simp_all add: and_then_def)

lemma py_getitem_Exception: "py_getitem v k = Inl e \<Longrightarrow> isinstance_Exception e"
  by (cases v) (auto split: option.splits)



lemma py_split_bar_Exception: "py_split_bar v = Inl e \<Longrightarrow> isinstance_Exception e"
  by (cases v) auto


lemma NewsArticle_init_Exception:
  "NewsArticle_init E i t b p u s cs = Inl e \<Longrightarrow> isinstance_Exception e"
  by (auto simp: NewsArticle_init_def split: option.splits)


lemma NewsArticle_init_typed:
  "NewsArticle_init E i (JStr t) (JStr b) (JInt p) (JStr u) (JStr s) cs =
     Inr \<lparr>id' = i, title = t, body = b, published_at = p, url = u, source = s, categories = cs\<rparr>"
  by (simp add: NewsArticle_init_def)

lemma article_of_Exception: "article_of E a = Inl e \<Longrightarrow> isinstance_Exception e"
  unfolding article_of_def and_then_eq_Inl
  by (blast dest: py_getitem_Exception py_split_bar_Exception NewsArticle_init_Exception)



lemma has_keyD: "has_key a k \<Longrightarrow> \<exists>v. py_getitem a k = Inr v"
  by (auto simp: has_key_def split: sum.splits)

lemma has_strD: "has_str a k \<Longrightarrow> \<exists>s. py_getitem a k = Inr (JStr s)"
  by (auto simp: has_str_def split: sum.splits json.splits)

lemma has_intD: "has_int a k \<Longrightarrow> \<exists>i. py_getitem a k = Inr (JInt i)"
  by (auto simp: has_int_def split: sum.splits json.splits)

text \<open>An entry of the expected shape maps to the record of its own values.\<close>

lemma article_of_well_formed:
  assumes "well_formed_entry a"
  shows "\<exists>vi t b p u s raw.
           py_getitem a ''id'' = Inr vi \<and> py_getitem a ''title'' = Inr (JStr t)
         \<and> py_getitem a ''body'' = Inr (JStr b) \<and> py_getitem a ''published_on'' = Inr (JInt p)
         \<and> py_getitem a ''url'' = Inr (JStr u) \<and> py_getitem a ''source'' = Inr (JStr s)
         \<and> py_getitem a ''categories'' = Inr (JStr raw)
         \<and> article_of E a =
             Inr \<lparr>id' = py_str E vi, title = t, body = b, published_at = p, url = u, source = s,
                  categories = split_on (CHR ''|'') raw\<rparr>"
proof -
  from assms obtain vi where vi: "py_getitem a ''id'' = Inr vi"
    unfolding well_formed_entry_def by (blast dest: has_keyD)
  from assms obtain t where t: "py_getitem a ''title'' = Inr (JStr t)"
    unfolding well_formed_entry_def by (blast dest: has_strD)
  from assms obtain b where b: "py_getitem a ''body'' = Inr (JStr b)"
    unfolding well_formed_entry_def by (blast dest: has_strD)
  from assms obtain p where p: "py_getitem a ''published_on'' = Inr (JInt p)"
    unfolding well_formed_entry_def by (blast dest: has_intD)
  from assms obtain u where u: "py_getitem a ''url'' = Inr (JStr u)"
    unfolding well_formed_entry_def by (blast dest: has_strD)
  from assms obtain s where s: "py_getitem a ''source'' = Inr (JStr s)"
    unfolding well_formed_entry_def by (blast dest: has_strD)
  from assms obtain raw where raw: "py_getitem a ''categories'' = Inr (JStr raw)"
    unfolding well_formed_entry_def by (blast dest: has_strD)
  have "article_of E a =
          Inr \<lparr>id' = py_str E vi, title = t, body = b, published_at = p, url = u, source = s,
               categories = split_on (CHR ''|'') raw\<rparr>"
    unfolding article_of_def
    by (simp only: vi t b p u s raw and_then_Inr py_split_bar.simps NewsArticle_init_typed)
  with vi t b p u s raw show ?thesis by blast
qed

lemma py_str_cong: "py_repr E1 = py_repr E2 \<Longrightarrow> py_str E1 v = py_str E2 v"
  by (cases v) auto

lemma article_of_well_formed_cong:
  assumes "well_formed_entry a" and "py_repr E1 = py_repr E2"
  shows "article_of E1 a = article_of E2 a"
  using article_of_well_formed [OF assms(1), of E1] article_of_well_formed [OF assms(1), of E2]
    py_str_cong [OF assms(2)]
  by auto

subsection \<open>From the result to the output\<close>

lemma py_getitem_contains: "py_getitem r k = Inr v \<Longrightarrow> py_contains k r = Inr True"
  by (cases r) (auto split: option.splits dest: map_of_SomeD intro: rev_image_eqI)



lemma output_of_result_present:
  "py_getitem r ''Data'' = Inr d \<Longrightarrow> py_iter d = Inr xs \<Longrightarrow>
     output_of_result E r =
       and_then (comprehension (article_of E) xs) (\<lambda>arts. Inr \<lparr>articles = arts, error = None\<rparr>)"
  by (simp add: output_of_result_def and_then_Inr py_getitem_contains)

lemma output_of_result_shape:
  "output_of_result E r = Inr out \<Longrightarrow> articles out = [] \<or> error out = None"
  by (auto simp: output_of_result_def and_then_eq_Inr split: if_splits)

lemma output_of_result_well_formed:
  assumes "well_formed_response result entries"
  shows "\<exists>arts. output_of_result E result = Inr \<lparr>articles = arts, error = None\<rparr>
           \<and> length arts = length entries
           \<and> map Inr arts = map (article_of E) entries"
proof -
  from assms have data: "py_getitem result ''Data'' = Inr (JList entries)"
    and wf: "list_all well_formed_entry entries"
    by (simp_all add: well_formed_response_def)
  have "\<exists>y. article_of E x = Inr y" if "x \<in> set entries" for x
    using that wf article_of_well_formed [of x E] by (auto simp: list_all_iff)
  then obtain arts where arts: "comprehension (article_of E) entries = Inr arts"
    using comprehension_all_ok [of entries "article_of E"] by blast
  then have m: "map Inr arts = map (article_of E) entries"
    by (simp add: comprehension_Inr_iff)
  then have len: "length arts = length entries"
    by (metis length_map)
  have "output_of_result E result = Inr \<lparr>articles = arts, error = None\<rparr>"
    using output_of_result_present [OF data, of entries E] arts by (simp add: and_then_Inr)
  with len m show ?thesis by blast
qed

lemma output_of_result_well_formed_cong:
  assumes "well_formed_response result entries" and "py_repr E1 = py_repr E2"
  shows "output_of_result E1 result = output_of_result E2 result"
proof -
  from assms(1) have data: "py_getitem result ''Data'' = Inr (JList entries)"
    and wf: "list_all well_formed_entry entries"
    by (simp_all add: well_formed_response_def)
  have "article_of E1 x = article_of E2 x" if "x \<in> set entries" for x
    using that wf article_of_well_formed_cong [OF _ assms(2), of x] by (simp add: list_all_iff)
  then have "comprehension (article_of E1) entries = comprehension (article_of E2) entries"
    by (rule comprehension_cong)
  then show ?thesis
    using output_of_result_present [OF data, of entries E1]
      output_of_result_present [OF data, of entries E2] by simp
qed

subsection \<open>The \<open>try\<close> and its handler\<close>

lemma arun_try_reached:
  assumes "context_from_config E cfg = Inr (Some c)"
      and "check_rate_limit E (agent_id c) = Inr (False, msg)"
  shows "arun_try E token cfg kwargs =
           ([ContextFromConfig, CheckRateLimit (agent_id c), TimeTime,
             FetchNews (config c ''api_key'') token (int_of_float (time_time E))],
            and_then (fetch_news E (config c ''api_key'') token (int_of_float (time_time E)))
              (output_of_result E))"
  using assms by (simp add: arun_try_def agent_id_of_def Let_def)

lemma arun_try_result:
  assumes "context_from_config E cfg = Inr (Some c)"
      and "check_rate_limit E (agent_id c) = Inr (False, msg)"
      and "fetch_news E (config c ''api_key'') token (int_of_float (time_time E)) = Inr result"
  shows "snd (arun_try E token cfg kwargs) = output_of_result E result"
  using arun_try_reached [OF assms(1,2)] assms(3) by (simp add: and_then_Inr)

lemma arun_returns:
  "snd (arun_try E token cfg kwargs) = Inr out \<Longrightarrow> snd (arun E token cfg kwargs) = Inr out"
  by (cases "arun_try E token cfg kwargs") (simp add: arun_def)

lemma arun_handles:
  "snd (arun_try E token cfg kwargs) = Inl e \<Longrightarrow> isinstance_Exception e \<Longrightarrow>
     snd (arun E token cfg kwargs) = Inr \<lparr>articles = [], error = Some (str_exception e)\<rparr>"
  by (cases "arun_try E token cfg kwargs") (simp add: arun_def)



lemma arun_try_shape:
  "snd (arun_try E token cfg kwargs) = Inr out \<Longrightarrow> articles out = [] \<or> error out = None"
  by (auto simp: arun_try_def Let_def and_then_eq_Inr
        split: sum.splits option.splits if_splits prod.splits dest: output_of_result_shape)



subsection \<open>The sample runs\<close>

lemma sample_timestamp: "int_of_float (6800000495 / 4) = 1700000123"
  by code_simp

lemmas sample_defs =
  sample_env_def sample_context_def sample_response_def sample_entries_def sample_entry_def

lemmas run_defs =
  arun_def arun_try_def agent_id_of_def and_then_def output_of_result_def article_of_def
  NewsArticle_init_def

lemma sample_run:
  "arun sample_env ''BTC'' () kwargs =
     ([ContextFromConfig, CheckRateLimit (Some ''agent-1''), TimeTime,
       FetchNews (Some ''secret'') ''BTC'' 1700000123],
      Inr \<lparr>articles = sample_articles, error = None\<rparr>)"
  using sample_timestamp by (simp add: run_defs sample_defs sample_articles_def)

lemma error_response_run:
  "snd (arun error_response_env ''BTC'' () []) =
     Inr \<lparr>articles = [], error = Some ''Invalid response format from CryptoCompare API''\<rparr>"
  by (simp add: run_defs error_response_env_def error_response_def sample_defs)

section \<open>The claims\<close>

text \<open>
  Claim C1. With an agent context present, the limiter not limiting and \<open>fetch_news\<close>
  returning a response whose \<open>Data\<close> is a list of \<open>N\<close> entries of the expected shape,
  \<open>_arun\<close> returns an output without error whose \<open>articles\<close> has exactly \<open>N\<close> records,
  the \<open>i\<close>-th record being the mapping of the \<open>i\<close>-th entry, whatever the token and
  the keyword arguments.
\<close>

theorem arun_well_formed_success:
  assumes "context_from_config E cfg = Inr (Some c)"
      and "check_rate_limit E (agent_id c) = Inr (False, msg)"
      and "fetch_news E (config c ''api_key'') token (int_of_float (time_time E)) = Inr result"
      and "well_formed_response result entries"
  shows "\<exists>arts. snd (arun E token cfg kwargs) = Inr \<lparr>articles = arts, error = None\<rparr>
           \<and> length arts = length entries
           \<and> map Inr arts = map (article_of E) entries"
proof -
  obtain arts where arts: "output_of_result E result = Inr \<lparr>articles = arts, error = None\<rparr>"
    "length arts = length entries" "map Inr arts = map (article_of E) entries"
    using output_of_result_well_formed [OF assms(4), of E] by blast
  then have "snd (arun_try E token cfg kwargs) = Inr \<lparr>articles = arts, error = None\<rparr>"
    using arun_try_result [OF assms(1,2,3)] by simp
  then have "snd (arun E token cfg kwargs) = Inr \<lparr>articles = arts, error = None\<rparr>"
    by (rule arun_returns)
  with arts(2,3) show ?thesis by blast
qed

text \<open>The sample response has three entries, and the run returns their three articles.\<close>

theorem arun_well_formed_success_witness:
  "context_from_config sample_env () = Inr (Some sample_context)
   \<and> check_rate_limit sample_env (agent_id sample_context) = Inr (False, None)
   \<and> fetch_news sample_env (config sample_context ''api_key'') ''BTC''
        (int_of_float (time_time sample_env)) = Inr sample_response
   \<and> well_formed_response sample_response sample_entries
   \<and> (\<exists>arts. snd (arun sample_env ''BTC'' () []) = Inr \<lparr>articles = arts, error = None\<rparr>
        \<and> length arts = 3
        \<and> map Inr arts = map (article_of sample_env) sample_entries)"
proof -
  have h1: "context_from_config sample_env () = Inr (Some sample_context)"
    by (simp add: sample_env_def)
  have h2: "check_rate_limit sample_env (agent_id sample_context) = Inr (False, None)"
    by (simp add: sample_env_def)
  have h3: "fetch_news sample_env (config sample_context ''api_key'') ''BTC''
        (int_of_float (time_time sample_env)) = Inr sample_response"
    by (simp add: sample_env_def)
  have h4: "well_formed_response sample_response sample_entries"
    by (simp add: well_formed_response_def well_formed_entry_def has_key_def has_str_def
        has_int_def sample_response_def sample_entries_def sample_entry_def)
  have "length sample_entries = 3" by (simp add: sample_entries_def)
  with arun_well_formed_success [OF h1 h2 h3 h4, of "[]"] h1 h2 h3 h4 show ?thesis by simp
qed

text \<open>
  Claim C2. When the limiter reports the caller as limited, \<open>_arun\<close> returns the output
  whose \<open>error\<close> is the limiter's message and whose \<open>articles\<close> is empty, after the
  two calls \<open>context_from_config\<close> and \<open>check_rate_limit\<close> only: \<open>fetch_news\<close> is not
  called. This holds with a context and without one.
\<close>

theorem arun_rate_limited:
  assumes "context_from_config E cfg = Inr context"
      and "check_rate_limit E (agent_id_of context) = Inr (True, msg)"
  shows "arun E token cfg kwargs =
           ([ContextFromConfig, CheckRateLimit (agent_id_of context)],
            Inr \<lparr>articles = [], error = msg\<rparr>)
         \<and> \<not> list_ex is_FetchNews (fst (arun E token cfg kwargs))"
  using assms by (simp add: arun_def arun_try_def Let_def)

text \<open>A limited agent receives the limiter's message, and the call list has no fetch.\<close>

theorem arun_rate_limited_witness:
  "context_from_config limited_env () = Inr (Some sample_context)
   \<and> check_rate_limit limited_env (agent_id_of (Some sample_context)) =
       Inr (True, Some ''Rate limit exceeded'')
   \<and> arun limited_env ''BTC'' () [] =
       ([ContextFromConfig, CheckRateLimit (Some ''agent-1'')],
        Inr \<lparr>articles = [], error = Some ''Rate limit exceeded''\<rparr>)
   \<and> \<not> list_ex is_FetchNews (fst (arun limited_env ''BTC'' () []))"
proof -
  have h1: "context_from_config limited_env () = Inr (Some sample_context)"
    by (simp add: limited_env_def sample_env_def)
  have h2: "check_rate_limit limited_env (agent_id_of (Some sample_context)) =
       Inr (True, Some ''Rate limit exceeded'')"
    by (simp add: limited_env_def sample_env_def)
  have "agent_id_of (Some sample_context) = Some ''agent-1''"
    by (simp add: agent_id_of_def sample_context_def)
  with arun_rate_limited [OF h1 h2, of "''BTC''" "[]"] h1 h2 show ?thesis by simp
qed








text \<open>
  Claim C6. When the mapping of some element of the \<open>Data\<close> collection raises, \<open>_arun\<close>
  returns an output with an empty \<open>articles\<close> and the text of the exception of the
  first such element as \<open>error\<close>; the articles mapped before it are not returned.
\<close>

theorem arun_mapping_failure_no_partial:
  assumes "context_from_config E cfg = Inr (Some c)"
      and "check_rate_limit E (agent_id c) = Inr (False, msg)"
      and "fetch_news E (config c ''api_key'') token (int_of_float (time_time E)) = Inr result"
      and "py_getitem result ''Data'' = Inr data" and "py_iter data = Inr entries"
      and "x \<in> set entries" and "article_of E x = Inl e0"
  shows "\<exists>ys y zs e. entries = ys @ y # zs \<and> (\<forall>v\<in>set ys. \<exists>a. article_of E v = Inr a)
           \<and> article_of E y = Inl e
           \<and> snd (arun E token cfg kwargs) = Inr \<lparr>articles = [], error = Some (str_exception e)\<rparr>"
proof -
  obtain e where e: "comprehension (article_of E) entries = Inl e"
    using comprehension_some_fails [of x entries "article_of E" e0] assms(6,7) by blast
  from comprehension_Inl_first [OF e] obtain ys y zs where
    first: "entries = ys @ y # zs" "\<forall>v\<in>set ys. \<exists>a. article_of E v = Inr a" "article_of E y = Inl e"
    by blast
  have "output_of_result E result = Inl e"
    using output_of_result_present [OF assms(4,5), of E] e by (simp add: and_then_Inl)
  then have "snd (arun_try E token cfg kwargs) = Inl e"
    using arun_try_reached [OF assms(1,2)] assms(3) by (simp add: and_then_Inr)
  moreover have "isinstance_Exception e"
    using first(3) by (rule article_of_Exception)
  ultimately have "snd (arun E token cfg kwargs) = Inr \<lparr>articles = [], error = Some (str_exception e)\<rparr>"
    by (rule arun_handles)
  with first show ?thesis by blast
qed

text \<open>The second entry of the broken response lacks \<open>title\<close>; the first one maps.\<close>

theorem arun_mapping_failure_no_partial_witness:
  "context_from_config broken_env () = Inr (Some sample_context)
   \<and> check_rate_limit broken_env (agent_id sample_context) = Inr (False, None)
   \<and> fetch_news broken_env (config sample_context ''api_key'') ''BTC''
        (int_of_float (time_time broken_env)) = Inr broken_response
   \<and> py_getitem broken_response ''Data'' = Inr (JList broken_entries)
   \<and> py_iter (JList broken_entries) = Inr broken_entries
   \<and> JObj [(''id'', JInt 5)] \<in> set broken_entries
   \<and> article_of broken_env (JObj [(''id'', JInt 5)]) = Inl (KeyError ([CHR 0x27] @ ''title'' @ [CHR 0x27]))
   \<and> (\<exists>ys y zs e. broken_entries = ys @ y # zs
         \<and> (\<forall>v\<in>set ys. \<exists>a. article_of broken_env v = Inr a)
         \<and> article_of broken_env y = Inl e
         \<and> snd (arun broken_env ''BTC'' () []) =
             Inr \<lparr>articles = [], error = Some (str_exception e)\<rparr>)"
proof -
  have h1: "context_from_config broken_env () = Inr (Some sample_context)"
    by (simp add: broken_env_def sample_env_def)
  have h2: "check_rate_limit broken_env (agent_id sample_context) = Inr (False, None)"
    by (simp add: broken_env_def sample_env_def)
  have h3: "fetch_news broken_env (config sample_context ''api_key'') ''BTC''
        (int_of_float (time_time broken_env)) = Inr broken_response"
    by (simp add: broken_env_def sample_env_def)
  have h4: "py_getitem broken_response ''Data'' = Inr (JList broken_entries)"
    by (simp add: broken_response_def)
  have h5: "py_iter (JList broken_entries) = Inr broken_entries"
    by simp
  have h6: "JObj [(''id'', JInt 5)] \<in> set broken_entries"
    by (simp add: broken_entries_def)
  have h7: "article_of broken_env (JObj [(''id'', JInt 5)]) =
      Inl (KeyError ([CHR 0x27] @ ''title'' @ [CHR 0x27]))"
    by (simp add: article_of_def and_then_def)
  from arun_mapping_failure_no_partial [OF h1 h2 h3 h4 h5 h6 h7, of "[]"] h1 h2 h3 h4 h5 h6 h7
  show ?thesis by simp
qed





text \<open>
  Claim C9. Two invocations that receive the same response of the expected shape
  return the same articles, although they differ in the token, the keyword arguments,
  the agent, the api key, the limiter's message and the clock. (\<open>py_repr\<close> is the same
  for both: it is Python's, not the invocation's.)
\<close>

theorem arun_mapping_deterministic:
  assumes "context_from_config E1 cfg1 = Inr (Some c1)"
      and "check_rate_limit E1 (agent_id c1) = Inr (False, msg1)"
      and "fetch_news E1 (config c1 ''api_key'') token1 (int_of_float (time_time E1)) = Inr result"
      and "context_from_config E2 cfg2 = Inr (Some c2)"
      and "check_rate_limit E2 (agent_id c2) = Inr (False, msg2)"
      and "fetch_news E2 (config c2 ''api_key'') token2 (int_of_float (time_time E2)) = Inr result"
      and "well_formed_response result entries"
      and "py_repr E1 = py_repr E2"
  shows "\<exists>arts. snd (arun E1 token1 cfg1 kwargs1) = Inr \<lparr>articles = arts, error = None\<rparr>
           \<and> snd (arun E2 token2 cfg2 kwargs2) = Inr \<lparr>articles = arts, error = None\<rparr>"
proof -
  obtain arts where arts: "output_of_result E1 result = Inr \<lparr>articles = arts, error = None\<rparr>"
    using output_of_result_well_formed [OF assms(7), of E1] by blast
  then have "output_of_result E2 result = Inr \<lparr>articles = arts, error = None\<rparr>"
    using output_of_result_well_formed_cong [OF assms(7,8)] by simp
  then have "snd (arun_try E2 token2 cfg2 kwargs2) = Inr \<lparr>articles = arts, error = None\<rparr>"
    using arun_try_result [OF assms(4,5,6)] by simp
  then have r2: "snd (arun E2 token2 cfg2 kwargs2) = Inr \<lparr>articles = arts, error = None\<rparr>"
    by (rule arun_returns)
  have "snd (arun_try E1 token1 cfg1 kwargs1) = Inr \<lparr>articles = arts, error = None\<rparr>"
    using arts arun_try_result [OF assms(1,2,3)] by simp
  then have "snd (arun E1 token1 cfg1 kwargs1) = Inr \<lparr>articles = arts, error = None\<rparr>"
    by (rule arun_returns)
  with r2 show ?thesis by blast
qed

text \<open>The sample response, fetched for two agents on two days.\<close>

theorem arun_mapping_deterministic_witness:
  "context_from_config sample_env () = Inr (Some sample_context)
   \<and> check_rate_limit sample_env (agent_id sample_context) = Inr (False, None)
   \<and> fetch_news sample_env (config sample_context ''api_key'') ''BTC''
        (int_of_float (time_time sample_env)) = Inr sample_response
   \<and> context_from_config other_env () = Inr (Some other_context)
   \<and> check_rate_limit other_env (agent_id other_context) = Inr (False, None)
   \<and> fetch_news other_env (config other_context ''api_key'') ''ETH''
        (int_of_float (time_time other_env)) = Inr sample_response
   \<and> well_formed_response sample_response sample_entries
   \<and> py_repr sample_env = py_repr other_env
   \<and> (\<exists>arts. snd (arun sample_env ''BTC'' () []) = Inr \<lparr>articles = arts, error = None\<rparr>
         \<and> snd (arun other_env ''ETH'' () [(''timestamp'', JInt 5)]) =
             Inr \<lparr>articles = arts, error = None\<rparr>)"
proof -
  have h1: "context_from_config sample_env () = Inr (Some sample_context)"
    by (simp add: sample_env_def)
  have h2: "check_rate_limit sample_env (agent_id sample_context) = Inr (False, None)"
    by (simp add: sample_env_def)
  have h3: "fetch_news sample_env (config sample_context ''api_key'') ''BTC''
        (int_of_float (time_time sample_env)) = Inr sample_response"
    by (simp add: sample_env_def)
  have h4: "context_from_config other_env () = Inr (Some other_context)"
    by (simp add: other_env_def sample_env_def)
  have h5: "check_rate_limit other_env (agent_id other_context) = Inr (False, None)"
    by (simp add: other_env_def sample_env_def)
  have h6: "fetch_news other_env (config other_context ''api_key'') ''ETH''
        (int_of_float (time_time other_env)) = Inr sample_response"
    by (simp add: other_env_def sample_env_def)
  have h7: "well_formed_response sample_response sample_entries"
    by (simp add: well_formed_response_def well_formed_entry_def has_key_def has_str_def
        has_int_def sample_response_def sample_entries_def sample_entry_def)
  have h8: "py_repr sample_env = py_repr other_env"
    by (simp add: other_env_def sample_env_def)
  from arun_mapping_deterministic [OF h1 h2 h3 h4 h5 h6 h7 h8, of "[]" "[(''timestamp'', JInt 5)]"]
    h1 h2 h3 h4 h5 h6 h7 h8
  show ?thesis by simp
qed

text \<open>
  Claim C10. An output that \<open>_arun\<close> returns never has both an error and articles:
  with \<open>error\<close> set \<open>articles\<close> is empty, and with \<open>articles\<close> not empty \<open>error\<close>
  is \<open>None\<close>.
\<close>

theorem arun_output_one_branch:
  assumes "snd (arun E token cfg kwargs) = Inr out"
  shows "(error out \<noteq> None \<longrightarrow> articles out = []) \<and> (articles out \<noteq> [] \<longrightarrow> error out = None)"
proof (cases "snd (arun_try E token cfg kwargs)")
  case (Inl e)
  then have "articles out = []"
    using assms by (cases "arun_try E token cfg kwargs") (auto simp: arun_def split: if_splits)
  then show ?thesis by simp
next
  case (Inr out')
  then have "out' = out" using assms arun_returns [OF Inr] by simp
  with arun_try_shape [OF Inr] have "articles out = [] \<or> error out = None" by simp
  then show ?thesis by auto
qed

text \<open>Both branches occur: the sample run has articles, the error response an error.\<close>

theorem arun_output_one_branch_witness:
  "snd (arun sample_env ''BTC'' () []) = Inr \<lparr>articles = sample_articles, error = None\<rparr>
   \<and> sample_articles \<noteq> []
   \<and> error \<lparr>articles = sample_articles, error = None\<rparr> = None
   \<and> snd (arun error_response_env ''BTC'' () []) =
       Inr \<lparr>articles = [], error = Some ''Invalid response format from CryptoCompare API''\<rparr>
   \<and> articles \<lparr>articles = [], error = Some ''Invalid response format from CryptoCompare API''\<rparr> = []"
proof -
  have r1: "snd (arun sample_env ''BTC'' () []) = Inr \<lparr>articles = sample_articles, error = None\<rparr>"
    by (simp add: sample_run)
  have ne: "sample_articles \<noteq> []"
    by (simp add: sample_articles_def)
  from arun_output_one_branch [OF r1] arun_output_one_branch [OF error_response_run] r1 ne
    error_response_run
  show ?thesis by simp
qed

end
